theory Spec2Isabelle
  imports Main "HOL-Library.AList"
begin

section \<open>Values of the platform\<close>

text \<open>
  The snapshot handed to the component has type \<^verbatim>\<open>any\<close>. It is modelled by the values
  that JSON can carry. \<open>JNull\<close> stands for both \<^verbatim>\<open>null\<close> and a missing
  (\<^verbatim>\<open>undefined\<close>) top-level value; a missing property of an object is \<open>None\<close> of
  \<open>json option\<close>. Numbers are restricted to integers: the code only ever tests a
  number for being zero. An object is the list of its own properties.
\<close>

datatype json =
    JNull
  | JBool bool
  | JNum int
  | JStr string
  | JArr "json list"
  | JObj "(string \<times> json) list"

text \<open>What \<^verbatim>\<open>if (v)\<close> and \<^verbatim>\<open>!v\<close> test.\<close>

fun truthy :: "json \<Rightarrow> bool" where
  "truthy JNull = False"
| "truthy (JBool b) = b"
| "truthy (JNum n) = (n \<noteq> 0)"
| "truthy (JStr s) = (s \<noteq> [])"
| "truthy (JArr xs) = True"
| "truthy (JObj kvs) = True"

fun truthy_opt :: "json option \<Rightarrow> bool" where
  "truthy_opt None = False"
| "truthy_opt (Some v) = truthy v"

datatype js_error = Error (message: string)

text \<open>
  Reading a property \<^verbatim>\<open>v.k\<close>: a TypeError on \<^verbatim>\<open>null\<close>, the property of an object,
  \<^verbatim>\<open>undefined\<close> on every other value (the code reads no built-in property such as
  \<^verbatim>\<open>length\<close> this way).
\<close>

fun js_get :: "json \<Rightarrow> string \<Rightarrow> js_error + json option" where
  "js_get JNull k = Inl (Error (''Cannot read properties of null (reading '' @ k @ '')''))"
| "js_get (JObj kvs) k = Inr (map_of kvs k)"
| "js_get v k = Inr None"

text \<open>Strict equality \<^verbatim>\<open>===\<close>: by value on primitives, by identity on arrays and
  objects, so two values that were parsed separately are never equal there.\<close>

fun strict_eq :: "json option \<Rightarrow> json option \<Rightarrow> bool" where
  "strict_eq None None = True"
| "strict_eq (Some JNull) (Some JNull) = True"
| "strict_eq (Some (JBool a)) (Some (JBool b)) = (a = b)"
| "strict_eq (Some (JNum a)) (Some (JNum b)) = (a = b)"
| "strict_eq (Some (JStr a)) (Some (JStr b)) = (a = b)"
| "strict_eq a b = False"

subsection \<open>Decimal numerals\<close>

definition digit_char :: "nat \<Rightarrow> char" where
  "digit_char d = ''0123456789'' ! d"

fun show_nat :: "nat \<Rightarrow> string" where
  "show_nat n = (if n < 10 then [digit_char n] else show_nat (n div 10) @ [digit_char (n mod 10)])"

declare show_nat.simps [simp del]

definition show_int :: "int \<Rightarrow> string" where
  "show_int i = (if i < 0 then CHR ''-'' # show_nat (nat (- i)) else show_nat (nat i))"

text \<open>\<^verbatim>\<open>Object.keys(v)\<close>: the property names of an object, the indices of an array or
  of a string, nothing for a number or a boolean. Only its length is used.\<close>

fun Object_keys :: "json \<Rightarrow> string list" where
  "Object_keys (JObj kvs) = map fst kvs"
| "Object_keys (JArr xs) = map show_nat [0..<length xs]"
| "Object_keys (JStr s) = map show_nat [0..<length s]"
| "Object_keys v = []"

subsection \<open>JSON.stringify\<close>

definition hex_char :: "nat \<Rightarrow> char" where
  "hex_char d = ''0123456789abcdef'' ! d"

definition escape_char :: "char \<Rightarrow> string" where
  "escape_char c =
     (let n = (of_char c :: nat) in
      if n = 34 then [CHR 0x5C, CHR 0x22]
      else if n = 92 then [CHR 0x5C, CHR 0x5C]
      else if n = 8 then [CHR 0x5C, CHR ''b'']
      else if n = 9 then [CHR 0x5C, CHR ''t'']
      else if n = 10 then [CHR 0x5C, CHR ''n'']
      else if n = 12 then [CHR 0x5C, CHR ''f'']
      else if n = 13 then [CHR 0x5C, CHR ''r'']
      else if n < 32 then [CHR 0x5C, CHR ''u'', CHR ''0'', CHR ''0'', hex_char (n div 16), hex_char (n mod 16)]
      else [c])"

definition quote :: "string \<Rightarrow> string" where
  "quote s = CHR 0x22 # concat (map escape_char s) @ [CHR 0x22]"

fun commas :: "string list \<Rightarrow> string" where
  "commas [] = []"
| "commas [x] = x"
| "commas (x # y # ys) = x @ CHR '','' # commas (y # ys)"

fun JSON_stringify :: "json \<Rightarrow> string" where
  "JSON_stringify JNull = ''null''"
| "JSON_stringify (JBool b) = (if b then ''true'' else ''false'')"
| "JSON_stringify (JNum n) = show_int n"
| "JSON_stringify (JStr s) = quote s"
| "JSON_stringify (JArr xs) = CHR ''['' # commas (map JSON_stringify xs) @ '']''"
| "JSON_stringify (JObj kvs) =
     CHR ''{'' # commas (map (\<lambda>kv. quote (fst kv) @ CHR '':'' # JSON_stringify (snd kv)) kvs) @ ''}''"

section \<open>The component and its world\<close>

datatype SyncStatus = Idle | Syncing | Synced | ErrorStatus | Offline

record StorageConfig =
  endpoint :: string
  autoSync :: bool

record User =
  id' :: string
  email :: string
  name :: string
  given_name :: string

text \<open>What one render of \<^verbatim>\<open>CloudStorage\<close> closes over: the \<^verbatim>\<open>data\<close> prop, the values of
  \<^verbatim>\<open>useAuth()\<close> and the \<^verbatim>\<open>config\<close> state. Every handler defined in that render sees
  these values, also when it runs later.\<close>

record component =
  data :: json
  user :: "User option"
  isAuthenticated :: bool
  config :: StorageConfig

record request =
  url :: string
  httpVerb :: string
  headers :: "(string \<times> string) list"
  payload :: "string option"

text \<open>The outcome of \<^verbatim>\<open>fetch\<close>: the promise rejects (no network), or a response arrives
  with a status and a body; the body is given by what \<^verbatim>\<open>response.json()\<close> makes of it.\<close>

datatype fetch_result = Rejected string | Response nat "js_error + json"

definition ok :: "nat \<Rightarrow> bool" where
  "ok st = (200 \<le> st \<and> st \<le> 299)"

datatype effect =
    SetItem string string
  | Fetch request
  | OnDataLoad json
  | SetSyncStatus SyncStatus
  | ConsoleError string
  | Download string json

text \<open>
  The world a handler runs in: the browser's \<^verbatim>\<open>localStorage\<close> with its quota (in
  characters of keys and values), the reading of the clock as \<^verbatim>\<open>toISOString()\<close> gives
  it, the component's own state (\<^verbatim>\<open>syncStatus\<close>, \<^verbatim>\<open>lastSync\<close>, \<^verbatim>\<open>error\<close>) and the
  trace of what the handlers did to the outside, in order. A call of the parent's
  \<^verbatim>\<open>onDataLoad\<close> is an entry of the trace: it is how the in-memory snapshot is replaced.
\<close>

record world =
  localStorage :: "(string \<times> string) list"
  quota :: nat
  now :: string
  syncStatus :: SyncStatus
  lastSync :: "string option"
  error :: "string option"
  effects :: "effect list"

definition emit :: "effect \<Rightarrow> world \<Rightarrow> world" where
  "emit e w = w\<lparr>effects := effects w @ [e]\<rparr>"

subsection \<open>localStorage\<close>

definition storage_used :: "(string \<times> string) list \<Rightarrow> nat" where
  "storage_used items = sum_list (map (\<lambda>kv. length (fst kv) + length (snd kv)) items)"

definition getItem :: "string \<Rightarrow> world \<Rightarrow> string option" where
  "getItem k w = map_of (localStorage w) k"

text \<open>\<^verbatim>\<open>setItem\<close> throws when the value does not fit, and then stores nothing.\<close>

definition setItem :: "string \<Rightarrow> string \<Rightarrow> world \<Rightarrow> js_error + world" where
  "setItem k v w =
     (let items = AList.update k v (localStorage w) in
      if storage_used items \<le> quota w
      then Inr (emit (SetItem k v) (w\<lparr>localStorage := items\<rparr>))
      else Inl (Error ''QuotaExceededError''))"

subsection \<open>State setters\<close>

definition setError :: "string \<Rightarrow> world \<Rightarrow> world" where
  "setError msg w = w\<lparr>error := Some msg\<rparr>"

definition updateSyncStatus :: "SyncStatus \<Rightarrow> world \<Rightarrow> world" where
  "updateSyncStatus status w =
     (let w1 = emit (SetSyncStatus status) (w\<lparr>syncStatus := status\<rparr>) in
      if status = Synced then w1\<lparr>lastSync := Some (now w1), error := None\<rparr> else w1)"

definition onDataLoad :: "json \<Rightarrow> world \<Rightarrow> world" where
  "onDataLoad d w = emit (OnDataLoad d) w"

definition console_error :: "string \<Rightarrow> world \<Rightarrow> world" where
  "console_error msg w = emit (ConsoleError msg) w"

section \<open>Local store\<close>

definition getStorageKey :: "component \<Rightarrow> string \<Rightarrow> string" where
  "getStorageKey c suffix =
     (case user c of
        Some u \<Rightarrow> ''checklist-'' @ id' u @ ''-'' @ suffix
      | None \<Rightarrow> ''checklist-'' @ suffix)"

definition saveToLocal :: "component \<Rightarrow> json \<Rightarrow> world \<Rightarrow> world" where
  "saveToLocal c d w =
     (let storageKey = getStorageKey c ''data'';
          timestampKey = getStorageKey c ''last-modified''
      in case setItem storageKey (JSON_stringify d) w of
           Inl err \<Rightarrow> console_error ''Failed to save to local storage:'' w
         | Inr w1 \<Rightarrow>
             (case setItem timestampKey (now w1) w1 of
                Inl err \<Rightarrow> console_error ''Failed to save to local storage:'' w1
              | Inr w2 \<Rightarrow> w2))"

section \<open>Remote store client\<close>

definition saveRequest :: "component \<Rightarrow> User \<Rightarrow> string \<Rightarrow> json \<Rightarrow> world \<Rightarrow> request" where
  "saveRequest c u accessToken d w =
     \<lparr>url = endpoint (config c) @ ''/save'',
      httpVerb = ''POST'',
      headers = [(''Content-Type'', ''application/json''),
                 (''Authorization'', ''Bearer '' @ accessToken)],
      payload = Some (JSON_stringify (JObj
        [(''userId'', JStr (id' u)),
         (''userEmail'', JStr (email u)),
         (''data'', d),
         (''timestamp'', JStr (now w))]))\<rparr>"

definition loadRequest :: "component \<Rightarrow> User \<Rightarrow> string \<Rightarrow> request" where
  "loadRequest c u accessToken =
     \<lparr>url = endpoint (config c) @ ''/load?userId='' @ id' u,
      httpVerb = ''GET'',
      headers = [(''Authorization'', ''Bearer '' @ accessToken)],
      payload = None\<rparr>"

definition authExpired :: string where
  "authExpired = ''Authentication expired. Please sign out and sign in again.''"

definition httpError :: "nat \<Rightarrow> string" where
  "httpError st = ''HTTP error! status: '' @ show_nat st"

text \<open>The check both calls make on a response that is not \<^verbatim>\<open>ok\<close>.\<close>

definition statusError :: "nat \<Rightarrow> js_error" where
  "statusError st = (if st = 401 then Error authExpired else Error (httpError st))"

definition saveToCloud ::
  "component \<Rightarrow> (request \<Rightarrow> fetch_result) \<Rightarrow> json \<Rightarrow> world \<Rightarrow> (js_error + bool) \<times> world" where
  "saveToCloud c fetch d w =
     (case user c of
        None \<Rightarrow> (Inl (Error ''Cloud storage not configured or user not authenticated''), w)
      | Some u \<Rightarrow>
          if endpoint (config c) = []
          then (Inl (Error ''Cloud storage not configured or user not authenticated''), w)
          else (case getItem ''google-access-token'' w of
                  None \<Rightarrow> (Inl (Error ''No access token available. Please sign in again.''), w)
                | Some accessToken \<Rightarrow>
                    if accessToken = []
                    then (Inl (Error ''No access token available. Please sign in again.''), w)
                    else (let req = saveRequest c u accessToken d w;
                              w1 = emit (Fetch req) w
                          in case fetch req of
                               Rejected msg \<Rightarrow> (Inl (Error msg), w1)
                             | Response st b \<Rightarrow>
                                 if \<not> ok st then (Inl (statusError st), w1)
                                 else (Inr True, w1))))"

text \<open>\<^verbatim>\<open>loadFromCloud\<close> returns \<^verbatim>\<open>result.data\<close>, which is \<open>None\<close> when the response has
  no such property. Whatever is thrown after the first status update passes through
  the \<^verbatim>\<open>catch\<close> that sets the status to \<^verbatim>\<open>offline\<close> and throws it again.\<close>

definition loadFromCloud ::
  "component \<Rightarrow> (request \<Rightarrow> fetch_result) \<Rightarrow> world \<Rightarrow> (js_error + json option) \<times> world" where
  "loadFromCloud c fetch w =
     (case user c of
        None \<Rightarrow> (Inl (Error ''Cloud storage not configured or user not authenticated''), w)
      | Some u \<Rightarrow>
          if endpoint (config c) = []
          then (Inl (Error ''Cloud storage not configured or user not authenticated''), w)
          else (let w1 = updateSyncStatus Syncing w in
                case getItem ''google-access-token'' w1 of
                  None \<Rightarrow> (Inl (Error ''No access token available. Please sign in again.''),
                            updateSyncStatus Offline w1)
                | Some accessToken \<Rightarrow>
                    if accessToken = []
                    then (Inl (Error ''No access token available. Please sign in again.''),
                          updateSyncStatus Offline w1)
                    else (let req = loadRequest c u accessToken;
                              w2 = emit (Fetch req) w1
                          in case fetch req of
                               Rejected msg \<Rightarrow> (Inl (Error msg), updateSyncStatus Offline w2)
                             | Response st b \<Rightarrow>
                                 if \<not> ok st then (Inl (statusError st), updateSyncStatus Offline w2)
                                 else (case b of
                                         Inl err \<Rightarrow> (Inl err, updateSyncStatus Offline w2)
                                       | Inr result \<Rightarrow>
                                           (case js_get result ''data'' of
                                              Inl err \<Rightarrow> (Inl err, updateSyncStatus Offline w2)
                                            | Inr v \<Rightarrow> (Inr v, w2))))))"

section \<open>Sync orchestrator\<close>

definition handleSync :: "component \<Rightarrow> (request \<Rightarrow> fetch_result) \<Rightarrow> world \<Rightarrow> world" where
  "handleSync c fetch w =
     (if \<not> truthy (data c) \<or> \<not> isAuthenticated c \<or> user c = None then w
      else (let w1 = updateSyncStatus Syncing w;
                w2 = saveToLocal c (data c) w1
            in if endpoint (config c) \<noteq> []
               then (case saveToCloud c fetch (data c) w2 of
                       (Inr r, w3) \<Rightarrow> updateSyncStatus Synced w3
                     | (Inl err, w3) \<Rightarrow>
                         updateSyncStatus ErrorStatus
                           (setError (message err) (console_error ''Sync failed:'' w3)))
               else updateSyncStatus Offline w2))"

definition handleCloudLoad :: "component \<Rightarrow> (request \<Rightarrow> fetch_result) \<Rightarrow> world \<Rightarrow> world" where
  "handleCloudLoad c fetch w =
     (if \<not> isAuthenticated c \<or> user c = None then w
      else (let w1 = updateSyncStatus Syncing w in
            case loadFromCloud c fetch w1 of
              (Inr cloudData, w2) \<Rightarrow>
                (case cloudData of
                   None \<Rightarrow> updateSyncStatus Offline w2
                 | Some d \<Rightarrow>
                     if truthy d
                     then updateSyncStatus Synced (saveToLocal c d (onDataLoad d w2))
                     else updateSyncStatus Offline w2)
            | (Inl err, w2) \<Rightarrow>
                updateSyncStatus ErrorStatus
                  (setError (message err) (console_error ''Cloud load failed:'' w2))))"

subsection \<open>Export and import\<close>

definition exportData :: "component \<Rightarrow> world \<Rightarrow> json" where
  "exportData c w =
     JObj [(''data'', data c),
           (''exportedAt'', JStr (now w)),
           (''exportedBy'',
              (case user c of
                 Some u \<Rightarrow> JObj [(''name'', JStr (name u)), (''email'', JStr (email u)),
                                  (''id'', JStr (id' u))]
               | None \<Rightarrow> JNull)),
           (''version'', JStr ''1.0'')]"

definition exportName :: "component \<Rightarrow> world \<Rightarrow> string" where
  "exportName c w =
     ''design-checklist-''
       @ (case user c of
            Some u \<Rightarrow> (if given_name u \<noteq> [] then given_name u else ''backup'')
          | None \<Rightarrow> ''backup'')
       @ ''-'' @ takeWhile (\<lambda>ch. ch \<noteq> CHR ''T'') (now w) @ ''.json''"

text \<open>The downloaded file holds \<^verbatim>\<open>JSON.stringify(exportData, null, 2)\<close>; the trace keeps
  the value that text denotes.\<close>

definition handleExport :: "component \<Rightarrow> world \<Rightarrow> world" where
  "handleExport c w = emit (Download (exportName c w) (exportData c w)) w"

text \<open>
  \<^verbatim>\<open>handleImport\<close> gets the chosen file, if any. The file is given by what
  \<^verbatim>\<open>JSON.parse\<close> makes of its text: a SyntaxError or a value. \<^verbatim>\<open>handleSync()\<close> is the
  function of the same render, so it sees the \<^verbatim>\<open>data\<close> prop of that render.
\<close>

definition handleImport ::
  "component \<Rightarrow> (request \<Rightarrow> fetch_result) \<Rightarrow> (js_error + json) option \<Rightarrow> world \<Rightarrow> world" where
  "handleImport c fetch file w =
     (case file of
        None \<Rightarrow> w
      | Some (Inl err) \<Rightarrow> setError ''Invalid backup file format'' w
      | Some (Inr importData) \<Rightarrow>
          (case js_get importData ''data'' of
             Inl err \<Rightarrow> setError ''Invalid backup file format'' w
           | Inr None \<Rightarrow> w
           | Inr (Some d) \<Rightarrow>
               if truthy d
               then (let w1 = saveToLocal c d (onDataLoad d w) in
                     if autoSync (config c) \<and> isAuthenticated c
                     then handleSync c fetch w1 else w1)
               else w))"

section \<open>Auto-sync effect and its timer\<close>

text \<open>
  The effect with dependencies \<^verbatim>\<open>[data, config.autoSync, isAuthenticated]\<close> runs after
  a render in which one of them changed; React first runs the cleanup the previous run
  returned, which clears its timer. A timer holds the time left in milliseconds and the
  render whose \<^verbatim>\<open>handleSync\<close> it will call. \<open>fired\<close> lists the renders whose
  \<^verbatim>\<open>handleSync\<close> was called by a timer, in order.
\<close>

record timers =
  pending :: "(nat \<times> component) option"
  fired :: "component list"

datatype event = Render component | Elapse nat

definition cleanup :: "timers \<Rightarrow> timers" where
  "cleanup s = s\<lparr>pending := None\<rparr>"

definition autoSyncEffect :: "component \<Rightarrow> timers \<Rightarrow> timers" where
  "autoSyncEffect c s =
     (if autoSync (config c) \<and> truthy (data c) \<and> length (Object_keys (data c)) > 0
         \<and> isAuthenticated c
      then s\<lparr>pending := Some (2000, c)\<rparr>
      else s)"

fun step :: "timers \<Rightarrow> event \<Rightarrow> timers" where
  "step s (Render c) = autoSyncEffect c (cleanup s)"
| "step s (Elapse n) =
     (case pending s of
        None \<Rightarrow> s
      | Some (r, c) \<Rightarrow>
          if r \<le> n then s\<lparr>pending := None, fired := fired s @ [c]\<rparr>
          else s\<lparr>pending := Some (r - n, c)\<rparr>)"

definition run :: "timers \<Rightarrow> event list \<Rightarrow> timers" where
  "run s evs = foldl step s evs"

definition idleTimers :: timers where
  "idleTimers = \<lparr>pending = None, fired = []\<rparr>"

text \<open>A burst: each render is followed by the time that passes before the next event.\<close>

fun burst :: "(component \<times> nat) list \<Rightarrow> event list" where
  "burst [] = []"
| "burst ((c, gap) # rest) = Render c # Elapse gap # burst rest"

section \<open>Serverless endpoints\<close>

text \<open>
  The two functions behind \<^verbatim>\<open>/save\<close> and \<^verbatim>\<open>/load\<close>. An event carries the method,
  the \<^verbatim>\<open>authorization\<close> header, the \<^verbatim>\<open>userId\<close> query parameter and the body; the body
  is \<open>None\<close> when it is absent or empty, and else what \<^verbatim>\<open>JSON.parse\<close> makes of it. A
  handler keeps no state: all it does besides answering is write to the console, and
  the lines it writes are returned with the response.
\<close>

record HandlerEvent =
  httpMethod :: string
  authorization :: "string option"
  queryUserId :: "string option"
  body :: "(js_error + json) option"

record HandlerResponse =
  statusCode :: nat
  responseBody :: string

definition errorBody :: "string \<Rightarrow> string \<Rightarrow> string" where
  "errorBody e m = JSON_stringify (JObj [(''error'', JStr e), (''message'', JStr m)])"

text \<open>\<^verbatim>\<open>String(v)\<close>, as a template literal renders a value.\<close>

fun elems :: "json list \<Rightarrow> string list" and to_String :: "json \<Rightarrow> string" where
  "elems [] = []"
| "elems (JNull # xs) = [] # elems xs"
| "elems (x # xs) = to_String x # elems xs"
| "to_String JNull = ''null''"
| "to_String (JBool b) = (if b then ''true'' else ''false'')"
| "to_String (JNum n) = show_int n"
| "to_String (JStr s) = s"
| "to_String (JArr xs) = commas (elems xs)"
| "to_String (JObj kvs) = ''[object Object]''"

definition template :: "json option \<Rightarrow> string" where
  "template v = (case v of None \<Rightarrow> ''undefined'' | Some j \<Rightarrow> to_String j)"

text \<open>\<^verbatim>\<open>verifyGoogleToken\<close> asks the identity provider, given here by its answer to a
  token; every failure, thrown or not, gives \<^verbatim>\<open>null\<close>.\<close>

definition verifyGoogleToken :: "(string \<Rightarrow> fetch_result) \<Rightarrow> string \<Rightarrow> json option \<times> string list" where
  "verifyGoogleToken google accessToken =
     (case google accessToken of
        Rejected msg \<Rightarrow> (None, [''Token verification error:''])
      | Response st b \<Rightarrow>
          if \<not> ok st then (None, [''Google API error: '' @ show_nat st])
          else (case b of
                  Inl err \<Rightarrow> (None, [''Token verification error:''])
                | Inr userInfo \<Rightarrow>
                    (case js_get userInfo ''id'' of
                       Inl err \<Rightarrow> (None, [''Token verification error:''])
                     | Inr i \<Rightarrow>
                         (case js_get userInfo ''email'' of
                            Inl err \<Rightarrow> (None, [''Token verification error:''])
                          | Inr e \<Rightarrow>
                              if \<not> truthy_opt i \<or> \<not> truthy_opt e
                              then (None, [''Invalid user info from Google:''])
                              else (Some userInfo, [])))))"

definition userInfo_id :: "json \<Rightarrow> json option" where
  "userInfo_id userInfo = (case js_get userInfo ''id'' of Inl err \<Rightarrow> None | Inr i \<Rightarrow> i)"

definition userInfo_email :: "json \<Rightarrow> json option" where
  "userInfo_email userInfo = (case js_get userInfo ''email'' of Inl err \<Rightarrow> None | Inr e \<Rightarrow> e)"

definition internalError :: "string \<Rightarrow> string \<Rightarrow> string list \<Rightarrow> HandlerResponse \<times> string list" where
  "internalError line m out =
     (\<lparr>statusCode = 500, responseBody = errorBody ''Internal server error'' m\<rparr>, out @ [line])"

definition save_handler ::
  "(string \<Rightarrow> fetch_result) \<Rightarrow> string \<Rightarrow> HandlerEvent \<Rightarrow> HandlerResponse \<times> string list" where
  "save_handler google clock ev =
     (if httpMethod ev = ''OPTIONS'' then (\<lparr>statusCode = 200, responseBody = []\<rparr>, [])
      else if httpMethod ev \<noteq> ''POST''
      then (\<lparr>statusCode = 405,
             responseBody = errorBody ''Method not allowed''
                              ''This endpoint only accepts POST requests''\<rparr>, [])
      else (case authorization ev of
              None \<Rightarrow> (\<lparr>statusCode = 401,
                         responseBody = errorBody ''Missing or invalid authorization header''
                                          ''Please provide a valid Bearer token''\<rparr>, [])
            | Some authHeader \<Rightarrow>
                if take 7 authHeader \<noteq> ''Bearer ''
                then (\<lparr>statusCode = 401,
                       responseBody = errorBody ''Missing or invalid authorization header''
                                        ''Please provide a valid Bearer token''\<rparr>, [])
                else (case verifyGoogleToken google (drop 7 authHeader) of
                        (None, out) \<Rightarrow>
                          (\<lparr>statusCode = 401,
                            responseBody = errorBody ''Invalid Google token''
                              ''The provided access token is invalid or expired''\<rparr>, out)
                      | (Some userInfo, out) \<Rightarrow>
                          (case (case body ev of None \<Rightarrow> Inr (JObj []) | Some p \<Rightarrow> p) of
                             Inl err \<Rightarrow>
                               internalError ''Save endpoint error:''
                                 ''An unexpected error occurred while saving data'' out
                           | Inr requestBody \<Rightarrow>
                               (case js_get requestBody ''userId'' of
                                  Inl err \<Rightarrow>
                                    internalError ''Save endpoint error:''
                                      ''An unexpected error occurred while saving data'' out
                                | Inr userId \<Rightarrow>
                                    if \<not> strict_eq userId (userInfo_id userInfo)
                                    then (\<lparr>statusCode = 403,
                                           responseBody = errorBody ''User ID mismatch''
                                             ''The user ID does not match the authenticated user''\<rparr>,
                                          out)
                                    else (case map_option JSON_stringify
                                                 (case js_get requestBody ''data'' of
                                                    Inl err \<Rightarrow> None | Inr d \<Rightarrow> d) of
                                            None \<Rightarrow>
                                              internalError ''Save endpoint error:''
                                                ''An unexpected error occurred while saving data''
                                                (out @ [''=== SAVE REQUEST ==='',
                                                  ''User: '' @ template (case js_get requestBody ''userEmail'' of
                                                                    Inl err \<Rightarrow> None | Inr e \<Rightarrow> e)
                                                    @ '' ('' @ template userId @ '')'',
                                                  ''Timestamp: '' @ template (case js_get requestBody ''timestamp'' of
                                                                    Inl err \<Rightarrow> None | Inr t \<Rightarrow> t)])
                                          | Some text \<Rightarrow>
                                              (\<lparr>statusCode = 200,
                                                responseBody = JSON_stringify (JObj
                                                  ([(''success'', JBool True),
                                                    (''message'', JStr ''Data saved successfully''),
                                                    (''timestamp'', JStr clock)]
                                                   @ (case userId of None \<Rightarrow> []
                                                      | Some i \<Rightarrow> [(''userId'', i)])))\<rparr>,
                                               out @ [''=== SAVE REQUEST ==='',
                                                  ''User: '' @ template (case js_get requestBody ''userEmail'' of
                                                                    Inl err \<Rightarrow> None | Inr e \<Rightarrow> e)
                                                    @ '' ('' @ template userId @ '')'',
                                                  ''Timestamp: '' @ template (case js_get requestBody ''timestamp'' of
                                                                    Inl err \<Rightarrow> None | Inr t \<Rightarrow> t),
                                                  ''Data size: '' @ show_nat (length text) @ '' characters'',
                                                  ''==================''])))))))"

definition load_handler ::
  "(string \<Rightarrow> fetch_result) \<Rightarrow> HandlerEvent \<Rightarrow> HandlerResponse \<times> string list" where
  "load_handler google ev =
     (if httpMethod ev = ''OPTIONS'' then (\<lparr>statusCode = 200, responseBody = []\<rparr>, [])
      else if httpMethod ev \<noteq> ''GET''
      then (\<lparr>statusCode = 405,
             responseBody = errorBody ''Method not allowed''
                              ''This endpoint only accepts GET requests''\<rparr>, [])
      else (case authorization ev of
              None \<Rightarrow> (\<lparr>statusCode = 401,
                         responseBody = errorBody ''Missing or invalid authorization header''
                                          ''Please provide a valid Bearer token''\<rparr>, [])
            | Some authHeader \<Rightarrow>
                if take 7 authHeader \<noteq> ''Bearer ''
                then (\<lparr>statusCode = 401,
                       responseBody = errorBody ''Missing or invalid authorization header''
                                        ''Please provide a valid Bearer token''\<rparr>, [])
                else (case queryUserId ev of
                        None \<Rightarrow>
                          (\<lparr>statusCode = 400,
                            responseBody = errorBody ''Missing userId parameter''
                              ''The userId query parameter is required''\<rparr>, [])
                      | Some userId \<Rightarrow>
                          if userId = []
                          then (\<lparr>statusCode = 400,
                                 responseBody = errorBody ''Missing userId parameter''
                                   ''The userId query parameter is required''\<rparr>, [])
                          else (case verifyGoogleToken google (drop 7 authHeader) of
                                  (None, out) \<Rightarrow>
                                    (\<lparr>statusCode = 401,
                                      responseBody = errorBody ''Invalid token or user mismatch''
                                        ''The provided token does not match the requested user''\<rparr>,
                                     out)
                                | (Some userInfo, out) \<Rightarrow>
                                    if \<not> strict_eq (userInfo_id userInfo) (Some (JStr userId))
                                    then (\<lparr>statusCode = 401,
                                           responseBody = errorBody ''Invalid token or user mismatch''
                                             ''The provided token does not match the requested user''\<rparr>,
                                          out)
                                    else (\<lparr>statusCode = 200,
                                           responseBody = JSON_stringify (JObj
                                             [(''success'', JBool True),
                                              (''data'', JNull),
                                              (''timestamp'', JNull),
                                              (''message'', JStr ''No saved data found (this is normal for new users)''),
                                              (''userId'', JStr userId)])\<rparr>,
                                          out @ [''=== LOAD REQUEST ==='',
                                                 ''User: '' @ template (userInfo_email userInfo)
                                                   @ '' ('' @ userId @ '')'',
                                                 ''Loading data for user...'',
                                                 ''==================''])))))"

section \<open>Observations and example inputs\<close>

text \<open>The values handed to \<^verbatim>\<open>onDataLoad\<close>, in order: each one replaced the in-memory
  snapshot of the parent.\<close>

fun loaded :: "effect list \<Rightarrow> json list" where
  "loaded [] = []"
| "loaded (OnDataLoad d # es) = d # loaded es"
| "loaded (e # es) = loaded es"

fun is_SetItem :: "effect \<Rightarrow> bool" where
  "is_SetItem (SetItem k v) = True"
| "is_SetItem e = False"

text \<open>Whether the storage has room for the data entry of a snapshot, and for both of
  its entries.\<close>

definition dataFits :: "component \<Rightarrow> json \<Rightarrow> world \<Rightarrow> bool" where
  "dataFits c d w =
     (storage_used (AList.update (getStorageKey c ''data'') (JSON_stringify d) (localStorage w))
        \<le> quota w)"

definition fits :: "component \<Rightarrow> json \<Rightarrow> world \<Rightarrow> bool" where
  "fits c d w =
     (dataFits c d w
      \<and> storage_used (AList.update (getStorageKey c ''last-modified'') (now w)
           (AList.update (getStorageKey c ''data'') (JSON_stringify d) (localStorage w)))
          \<le> quota w)"

definition demoUser :: User where
  "demoUser = \<lparr>id' = ''u1'', email = ''u1@example.org'', name = ''Uma'', given_name = ''Uma''\<rparr>"

definition demoComponent :: component where
  "demoComponent =
     \<lparr>data = JObj [(''a'', JBool True)], user = Some demoUser, isAuthenticated = True,
      config = \<lparr>endpoint = ''https://api.example.org'', autoSync = True\<rparr>\<rparr>"

definition demoWorld :: "nat \<Rightarrow> world" where
  "demoWorld q =
     \<lparr>localStorage = [(''google-access-token'', ''tok'')], quota = q,
      now = ''2024-01-02T03:04:05.000Z'', syncStatus = Offline, lastSync = None,
      error = None, effects = []\<rparr>"

text \<open>An identity provider that knows one token, and two requests made with that token
  for another user.\<close>

definition googleKnows :: "string \<Rightarrow> fetch_result" where
  "googleKnows t =
     (if t = ''tok''
      then Response 200 (Inr (JObj [(''id'', JStr ''u1''), (''email'', JStr ''u1@example.org'')]))
      else Response 401 (Inr JNull))"

definition loadEvent :: HandlerEvent where
  "loadEvent = \<lparr>httpMethod = ''GET'', authorization = Some ''Bearer tok'',
                queryUserId = Some ''u2'', body = None\<rparr>"

definition saveEvent :: HandlerEvent where
  "saveEvent = \<lparr>httpMethod = ''POST'', authorization = Some ''Bearer tok'', queryUserId = None,
     body = Some (Inr (JObj [(''userId'', JStr ''u2''), (''userEmail'', JStr ''u2@example.org''),
                             (''data'', JObj [(''a'', JBool True)]),
                             (''timestamp'', JStr ''2024-01-02T03:04:05.000Z'')]))\<rparr>"

text \<open>The end of \<open>handleSync\<close> after the local write, for either outcome of the remote
  call.\<close>

definition finishSync :: "(js_error + bool) \<times> world \<Rightarrow> world" where
  "finishSync p =
     (case p of
        (Inr r, w3) \<Rightarrow> updateSyncStatus Synced w3
      | (Inl err, w3) \<Rightarrow>
          updateSyncStatus ErrorStatus (setError (message err) (console_error ''Sync failed:'' w3)))"

text \<open>The end of \<open>handleCloudLoad\<close> after \<open>loadFromCloud\<close>, for either outcome.\<close>

definition finishLoad :: "component \<Rightarrow> (js_error + json option) \<times> world \<Rightarrow> world" where
  "finishLoad c p =
     (case p of
        (Inr cloudData, w2) \<Rightarrow>
          (case cloudData of
             None \<Rightarrow> updateSyncStatus Offline w2
           | Some d \<Rightarrow>
               if truthy d
               then updateSyncStatus Synced (saveToLocal c d (onDataLoad d w2))
               else updateSyncStatus Offline w2)
      | (Inl err, w2) \<Rightarrow>
          updateSyncStatus ErrorStatus
            (setError (message err) (console_error ''Cloud load failed:'' w2)))"

section \<open>Supporting facts\<close>

lemma emit_fields [simp]:
  "localStorage (emit e w) = localStorage w"
  "quota (emit e w) = quota w"
  "now (emit e w) = now w"
  "syncStatus (emit e w) = syncStatus w"
  "lastSync (emit e w) = lastSync w"
  "error (emit e w) = error w"
  "effects (emit e w) = effects w @ [e]"
  by (simp_all add: emit_def)

lemma updateSyncStatus_fields [simp]:
  "localStorage (updateSyncStatus s w) = localStorage w"
  "quota (updateSyncStatus s w) = quota w"
  "now (updateSyncStatus s w) = now w"
  "syncStatus (updateSyncStatus s w) = s"
  "effects (updateSyncStatus s w) = effects w @ [SetSyncStatus s]"
  by (simp_all add: updateSyncStatus_def Let_def)

lemma updateSyncStatus_error:
  "error (updateSyncStatus s w) = (if s = Synced then None else error w)"
  by (simp add: updateSyncStatus_def Let_def)

lemma setError_fields [simp]:
  "localStorage (setError m w) = localStorage w"
  "quota (setError m w) = quota w"
  "now (setError m w) = now w"
  "syncStatus (setError m w) = syncStatus w"
  "error (setError m w) = Some m"
  "lastSync (setError m w) = lastSync w"
  "effects (setError m w) = effects w"
  by (simp_all add: setError_def)

lemma console_error_fields [simp]:
  "localStorage (console_error m w) = localStorage w"
  "quota (console_error m w) = quota w"
  "now (console_error m w) = now w"
  "syncStatus (console_error m w) = syncStatus w"
  "error (console_error m w) = error w"
  "lastSync (console_error m w) = lastSync w"
  "effects (console_error m w) = effects w @ [ConsoleError m]"
  by (simp_all add: console_error_def)

lemma onDataLoad_fields [simp]:
  "localStorage (onDataLoad d w) = localStorage w"
  "quota (onDataLoad d w) = quota w"
  "now (onDataLoad d w) = now w"
  "syncStatus (onDataLoad d w) = syncStatus w"
  "error (onDataLoad d w) = error w"
  "lastSync (onDataLoad d w) = lastSync w"
  "effects (onDataLoad d w) = effects w @ [OnDataLoad d]"
  by (simp_all add: onDataLoad_def)

lemma getItem_unchanged [simp]:
  "getItem k (emit e w) = getItem k w"
  "getItem k (updateSyncStatus s w) = getItem k w"
  "getItem k (setError m w) = getItem k w"
  "getItem k (console_error m w) = getItem k w"
  "getItem k (onDataLoad d w) = getItem k w"
  by (simp_all add: getItem_def)

lemma fits_unchanged [simp]:
  "fits c d (emit e w) = fits c d w"
  "fits c d (updateSyncStatus s w) = fits c d w"
  "fits c d (setError m w) = fits c d w"
  "fits c d (console_error m w) = fits c d w"
  "fits c d (onDataLoad d' w) = fits c d w"
  by (simp_all add: fits_def dataFits_def)

lemma loaded_append [simp]: "loaded (xs @ ys) = loaded xs @ loaded ys"
  by (induction xs rule: loaded.induct) simp_all

lemma storage_keys_differ: "getStorageKey c ''data'' \<noteq> getStorageKey c ''last-modified''"
  by (simp add: getStorageKey_def split: option.splits)

subsection \<open>What \<open>saveToLocal\<close> leaves behind\<close>

lemma saveToLocal_storage:
  "localStorage (saveToLocal c d w) =
     (if \<not> dataFits c d w then localStorage w
      else if \<not> fits c d w
           then AList.update (getStorageKey c ''data'') (JSON_stringify d) (localStorage w)
           else AList.update (getStorageKey c ''last-modified'') (now w)
                  (AList.update (getStorageKey c ''data'') (JSON_stringify d) (localStorage w)))"
  by (simp add: saveToLocal_def setItem_def Let_def fits_def dataFits_def)

lemma saveToLocal_other [simp]:
  "quota (saveToLocal c d w) = quota w"
  "now (saveToLocal c d w) = now w"
  "syncStatus (saveToLocal c d w) = syncStatus w"
  "error (saveToLocal c d w) = error w"
  "lastSync (saveToLocal c d w) = lastSync w"
  by (simp_all add: saveToLocal_def setItem_def Let_def)

lemma saveToLocal_loaded [simp]: "loaded (effects (saveToLocal c d w)) = loaded (effects w)"
  by (simp add: saveToLocal_def setItem_def Let_def)

lemma saveToLocal_fits_effects:
  assumes "fits c d w"
  shows "effects (saveToLocal c d w) =
           effects w @ [SetItem (getStorageKey c ''data'') (JSON_stringify d),
                        SetItem (getStorageKey c ''last-modified'') (now w)]"
  using assms by (simp add: fits_def dataFits_def saveToLocal_def setItem_def Let_def)

lemma saveToLocal_fits_getItem:
  assumes "fits c d w"
  shows "getItem (getStorageKey c ''data'') (saveToLocal c d w) = Some (JSON_stringify d)"
    and "getItem (getStorageKey c ''last-modified'') (saveToLocal c d w) = Some (now w)"
  using storage_keys_differ [of c] assms
  by (simp_all add: getItem_def saveToLocal_storage update_conv' fits_def)

subsection \<open>The example inputs\<close>

lemma demo_keys:
  "getStorageKey demoComponent ''data'' = ''checklist-u1-data''"
  "getStorageKey demoComponent ''last-modified'' = ''checklist-u1-last-modified''"
  by (simp_all add: getStorageKey_def demoComponent_def demoUser_def)

lemma demo_text:
  "JSON_stringify (data demoComponent) =
     [CHR ''{'', CHR 0x22, CHR ''a'', CHR 0x22, CHR '':'', CHR ''t'', CHR ''r'', CHR ''u'',
      CHR ''e'', CHR ''}'']"
  by (simp add: demoComponent_def quote_def escape_char_def)

lemma demo_fits: "fits demoComponent (data demoComponent) (demoWorld 1000)"
  by (simp add: fits_def dataFits_def demo_keys demo_text demoWorld_def storage_used_def)

lemma demo_tight:
  "dataFits demoComponent (data demoComponent) (demoWorld 60)"
  "\<not> fits demoComponent (data demoComponent) (demoWorld 60)"
  "\<not> dataFits demoComponent (data demoComponent) (demoWorld 10)"
  by (simp_all add: fits_def dataFits_def demo_keys demo_text demoWorld_def storage_used_def)

lemma demo_component:
  "truthy (data demoComponent)" "isAuthenticated demoComponent"
  "user demoComponent = Some demoUser" "endpoint (config demoComponent) \<noteq> []"
  "autoSync (config demoComponent)"
  by (simp_all add: demoComponent_def)

subsection \<open>What the remote calls and a sync leave behind\<close>

lemma saveToCloud_fields [simp]:
  "localStorage (snd (saveToCloud c fetch d w)) = localStorage w"
  "quota (snd (saveToCloud c fetch d w)) = quota w"
  "now (snd (saveToCloud c fetch d w)) = now w"
  "syncStatus (snd (saveToCloud c fetch d w)) = syncStatus w"
  "error (snd (saveToCloud c fetch d w)) = error w"
  "loaded (effects (snd (saveToCloud c fetch d w))) = loaded (effects w)"
  by (simp_all add: saveToCloud_def Let_def split: option.splits fetch_result.splits)

lemma saveToCloud_effects:
  "effects (snd (saveToCloud c fetch d w)) = effects w
   \<or> (\<exists>req. effects (snd (saveToCloud c fetch d w)) = effects w @ [Fetch req])"
  by (simp add: saveToCloud_def Let_def split: option.splits fetch_result.splits)

lemma handleSync_unfold:
  "handleSync c fetch w =
     (if \<not> truthy (data c) \<or> \<not> isAuthenticated c \<or> user c = None then w
      else if endpoint (config c) \<noteq> []
           then finishSync (saveToCloud c fetch (data c)
                  (saveToLocal c (data c) (updateSyncStatus Syncing w)))
           else updateSyncStatus Offline (saveToLocal c (data c) (updateSyncStatus Syncing w)))"
  by (simp add: handleSync_def finishSync_def Let_def)

lemma finishSync_fields [simp]:
  "localStorage (finishSync p) = localStorage (snd p)"
  "loaded (effects (finishSync p)) = loaded (effects (snd p))"
  "quota (finishSync p) = quota (snd p)"
  "now (finishSync p) = now (snd p)"
  by (cases p; cases "fst p"; simp add: finishSync_def)+

lemma finishSync_effects:
  "\<exists>rest. effects (finishSync p) = effects (snd p) @ rest \<and> \<not> list_ex is_SetItem rest"
  by (cases p; cases "fst p"; simp add: finishSync_def)

lemma handleSync_storage:
  "localStorage (handleSync c fetch w) =
     (if \<not> truthy (data c) \<or> \<not> isAuthenticated c \<or> user c = None then localStorage w
      else localStorage (saveToLocal c (data c) w))"
  by (simp add: handleSync_unfold saveToLocal_storage fits_def dataFits_def)

lemma handleSync_loaded [simp]: "loaded (effects (handleSync c fetch w)) = loaded (effects w)"
  by (simp add: handleSync_unfold)

lemma handleSync_trace:
  assumes "truthy (data c)" "isAuthenticated c" "user c = Some u"
  shows "\<exists>rest. effects (handleSync c fetch w)
           = effects (saveToLocal c (data c) (updateSyncStatus Syncing w)) @ rest
         \<and> \<not> list_ex is_SetItem rest"
proof (cases "endpoint (config c) = []")
  case True
  with assms show ?thesis by (simp add: handleSync_unfold)
next
  case False
  let ?w2 = "saveToLocal c (data c) (updateSyncStatus Syncing w)"
  let ?p = "saveToCloud c fetch (data c) ?w2"
  obtain r1 where r1: "effects (finishSync ?p) = effects (snd ?p) @ r1" "\<not> list_ex is_SetItem r1"
    using finishSync_effects by blast
  from saveToCloud_effects [of c fetch "data c" ?w2]
  obtain r0 where r0: "effects (snd ?p) = effects ?w2 @ r0" "\<not> list_ex is_SetItem r0"
    by (elim disjE exE) (rule that [of "[]"], simp, simp, rule that, simp, simp)
  have "effects (handleSync c fetch w) = effects ?w2 @ (r0 @ r1)"
    using assms False r0 r1 by (simp add: handleSync_unfold)
  moreover have "\<not> list_ex is_SetItem (r0 @ r1)" using r0 r1 by simp
  ultimately show ?thesis by blast
qed

subsection \<open>The read path\<close>

lemma loadFromCloud_fields [simp]:
  "localStorage (snd (loadFromCloud c fetch w)) = localStorage w"
  "quota (snd (loadFromCloud c fetch w)) = quota w"
  "now (snd (loadFromCloud c fetch w)) = now w"
  "error (snd (loadFromCloud c fetch w)) = error w"
  "loaded (effects (snd (loadFromCloud c fetch w))) = loaded (effects w)"
  by (simp_all add: loadFromCloud_def Let_def updateSyncStatus_error
        split: option.splits fetch_result.splits sum.splits)

lemma loadFromCloud_failure_offline:
  assumes "fst (loadFromCloud c fetch w) = Inl err" "user c \<noteq> None" "endpoint (config c) \<noteq> []"
  shows "syncStatus (snd (loadFromCloud c fetch w)) = Offline"
  using assms
  by (auto simp add: loadFromCloud_def Let_def split: option.splits fetch_result.splits sum.splits if_splits)

lemma loadFromCloud_causes:
  assumes "user c = Some u" "endpoint (config c) \<noteq> []"
  shows "getItem ''google-access-token'' w = None \<Longrightarrow>
           fst (loadFromCloud c fetch w) = Inl (Error ''No access token available. Please sign in again.'')"
    and "getItem ''google-access-token'' w = Some tok \<Longrightarrow> tok \<noteq> [] \<Longrightarrow>
           fetch (loadRequest c u tok) = Rejected msg \<Longrightarrow>
           fst (loadFromCloud c fetch w) = Inl (Error msg)"
    and "getItem ''google-access-token'' w = Some tok \<Longrightarrow> tok \<noteq> [] \<Longrightarrow>
           fetch (loadRequest c u tok) = Response st b \<Longrightarrow> \<not> ok st \<Longrightarrow>
           fst (loadFromCloud c fetch w) = Inl (statusError st)"
  using assms by (simp_all add: loadFromCloud_def Let_def)

lemma loadFromCloud_success:
  assumes "user c = Some u" "endpoint (config c) \<noteq> []"
    "getItem ''google-access-token'' w = Some tok" "tok \<noteq> []"
    "fetch (loadRequest c u tok) = Response st (Inr result)" "ok st"
    "js_get result ''data'' = Inr v"
  shows "loadFromCloud c fetch w
           = (Inr v, emit (Fetch (loadRequest c u tok)) (updateSyncStatus Syncing w))"
  using assms by (simp add: loadFromCloud_def Let_def)

lemma handleCloudLoad_unfold:
  "handleCloudLoad c fetch w =
     (if \<not> isAuthenticated c \<or> user c = None then w
      else finishLoad c (loadFromCloud c fetch (updateSyncStatus Syncing w)))"
  by (simp add: handleCloudLoad_def finishLoad_def Let_def)

lemma finishLoad_Inl:
  "finishLoad c (Inl err, w2) =
     updateSyncStatus ErrorStatus (setError (message err) (console_error ''Cloud load failed:'' w2))"
  by (simp add: finishLoad_def)

lemma finishLoad_truthy:
  "truthy d \<Longrightarrow> finishLoad c (Inr (Some d), w2) = updateSyncStatus Synced (saveToLocal c d (onDataLoad d w2))"
  by (simp add: finishLoad_def)

subsection \<open>Status codes\<close>

lemma show_nat_403: "show_nat 403 = ''403''"
  by (simp add: show_nat.simps digit_char_def)

lemma authExpired_is_not_httpError: "authExpired \<noteq> httpError st"
  by (simp add: authExpired_def httpError_def)

lemma saveToCloud_status:
  assumes "user c = Some u" "endpoint (config c) \<noteq> []"
    "getItem ''google-access-token'' w = Some tok" "tok \<noteq> []"
    "fetch (saveRequest c u tok d w) = Response st b" "\<not> ok st"
  shows "fst (saveToCloud c fetch d w) = Inl (statusError st)"
  using assms by (simp add: saveToCloud_def Let_def)

subsection \<open>Import and export\<close>

lemma saveToLocal_effects_prefix: "\<exists>rest. effects (saveToLocal c d w) = effects w @ rest"
  by (simp add: saveToLocal_def setItem_def Let_def)

lemma handleSync_effects_prefix: "\<exists>rest. effects (handleSync c fetch w) = effects w @ rest"
proof -
  let ?w2 = "saveToLocal c (data c) (updateSyncStatus Syncing w)"
  let ?p = "saveToCloud c fetch (data c) ?w2"
  obtain r0 where r0: "effects ?w2 = effects w @ r0"
    using saveToLocal_effects_prefix [of c "data c" "updateSyncStatus Syncing w"] by auto
  obtain r1 where r1: "effects (snd ?p) = effects ?w2 @ r1"
    using saveToCloud_effects [of c fetch "data c" ?w2] by auto
  obtain r2 where r2: "effects (finishSync ?p) = effects (snd ?p) @ r2"
    using finishSync_effects by blast
  show ?thesis using r0 r1 r2 by (simp add: handleSync_unfold)
qed

lemma handleImport_unparseable:
  "error (handleImport c fetch (Some (Inl e)) w) = Some ''Invalid backup file format''"
  "error (handleImport c fetch (Some (Inr JNull)) w) = Some ''Invalid backup file format''"
  by (simp_all add: handleImport_def)

lemma handleImport_truthy:
  assumes "js_get importData ''data'' = Inr (Some d)" "truthy d"
  shows "handleImport c fetch (Some (Inr importData)) w =
           (if autoSync (config c) \<and> isAuthenticated c
            then handleSync c fetch (saveToLocal c d (onDataLoad d w))
            else saveToLocal c d (onDataLoad d w))"
  using assms by (simp add: handleImport_def Let_def)

lemma exportData_data: "js_get (exportData c w) ''data'' = Inr (Some (data c))"
  by (simp add: exportData_def)

subsection \<open>Timers\<close>

lemma run_Nil [simp]: "run s [] = s"
  by (simp add: run_def)

lemma run_Cons [simp]: "run s (e # evs) = run (step s e) evs"
  by (simp add: run_def)

lemma run_append: "run s (xs @ ys) = run (run s xs) ys"
  by (simp add: run_def)

lemma burst_append: "burst (xs @ ys) = burst xs @ burst ys"
  by (induction xs rule: burst.induct) simp_all

lemma render_fired [simp]: "fired (step s (Render c)) = fired s"
  by (simp add: autoSyncEffect_def cleanup_def)

lemma render_pending:
  "pending (step s (Render c)) =
     (if autoSync (config c) \<and> truthy (data c) \<and> Object_keys (data c) \<noteq> [] \<and> isAuthenticated c
      then Some (2000, c) else None)"
  by (simp add: autoSyncEffect_def cleanup_def)

lemma elapse_fired:
  "fired (step s (Elapse n)) =
     (case pending s of
        None \<Rightarrow> fired s
      | Some (r, c) \<Rightarrow> if r \<le> n then fired s @ [c] else fired s)"
  by (simp split: option.splits)

lemma elapse_pending:
  "pending (step s (Elapse n)) =
     (case pending s of
        None \<Rightarrow> None
      | Some (r, c) \<Rightarrow> if r \<le> n then None else Some (r - n, c))"
  by (simp split: option.splits)

declare step.simps [simp del]

lemmas step_simps = render_pending elapse_fired elapse_pending

lemma render_then_short_gap:
  assumes "g < 2000"
  shows "fired (step (step s (Render c)) (Elapse g)) = fired s"
  using assms by (simp add: step_simps)

lemma render_then_long_gap:
  assumes "2000 \<le> n"
  shows "fired (step (step s (Render c)) (Elapse n)) =
           fired s @ (if autoSync (config c) \<and> truthy (data c) \<and> Object_keys (data c) \<noteq> []
                         \<and> isAuthenticated c then [c] else [])"
    and "pending (step (step s (Render c)) (Elapse n)) = None"
  using assms by (simp_all add: step_simps)

lemma quiet_burst:
  assumes "\<forall>m \<in> set ms. snd m < 2000"
  shows "fired (run s (burst ms)) = fired s"
  using assms
proof (induction ms arbitrary: s)
  case Nil
  then show ?case by simp
next
  case (Cons m ms)
  obtain c g where m: "m = (c, g)" by (cases m)
  with Cons.prems have g: "g < 2000" by simp
  have "fired (run s (burst (m # ms))) = fired (run (step (step s (Render c)) (Elapse g)) (burst ms))"
    by (simp add: m)
  also have "\<dots> = fired (step (step s (Render c)) (Elapse g))"
    using Cons by simp
  also have "\<dots> = fired s" by (rule render_then_short_gap [OF g])
  finally show ?case .
qed

lemma idle_elapse: "pending s = None \<Longrightarrow> step s (Elapse n) = s"
  by (simp add: step.simps)

lemma idle_waits: "pending s = None \<Longrightarrow> run s (map Elapse ns) = s"
  by (induction ns) (simp_all add: idle_elapse)

subsection \<open>Endpoints\<close>

lemma verifyGoogleToken_Some:
  "verifyGoogleToken google t = (Some userInfo, out) \<Longrightarrow> out = []"
  by (auto simp add: verifyGoogleToken_def split: fetch_result.splits if_splits sum.splits)

lemma googleKnows_tok:
  "verifyGoogleToken googleKnows ''tok''
     = (Some (JObj [(''id'', JStr ''u1''), (''email'', JStr ''u1@example.org'')]), [])"
  by (simp add: verifyGoogleToken_def googleKnows_def ok_def)

section \<open>C1: the write path is local first\<close>

text \<open>
  Claim C1. For every call of \<open>handleSync\<close> with a truthy snapshot, an authenticated
  session and a user, whatever the network answers: the Local Store after the sync is
  the Local Store after \<open>saveToLocal\<close> alone, so the remote outcome (a rejected fetch,
  a 401, any status) never undoes the local write. Where the storage has room for the
  two entries, the data entry holds the serialized snapshot afterwards, and the trace
  of the sync starts with the status update and the two \<^verbatim>\<open>setItem\<close> calls: the fetch,
  if any, comes after them, and no storage write follows.
\<close>

theorem handleSync_local_first:
  assumes "truthy (data c)" and "isAuthenticated c" and "user c = Some u"
  shows "localStorage (handleSync c fetch w) = localStorage (saveToLocal c (data c) w)
    \<and> (fits c (data c) w \<longrightarrow>
         getItem (getStorageKey c ''data'') (handleSync c fetch w) = Some (JSON_stringify (data c))
         \<and> (\<exists>rest. effects (handleSync c fetch w)
               = effects w @ [SetSyncStatus Syncing,
                              SetItem (getStorageKey c ''data'') (JSON_stringify (data c)),
                              SetItem (getStorageKey c ''last-modified'') (now w)] @ rest
               \<and> \<not> list_ex is_SetItem rest))"
proof -
  have s: "localStorage (handleSync c fetch w) = localStorage (saveToLocal c (data c) w)"
    using assms by (simp add: handleSync_storage)
  have g: "getItem (getStorageKey c ''data'') (handleSync c fetch w) = Some (JSON_stringify (data c))"
    if "fits c (data c) w"
    using saveToLocal_fits_getItem(1) [OF that] s by (simp add: getItem_def)
  have t: "\<exists>rest. effects (handleSync c fetch w)
             = effects w @ [SetSyncStatus Syncing,
                            SetItem (getStorageKey c ''data'') (JSON_stringify (data c)),
                            SetItem (getStorageKey c ''last-modified'') (now w)] @ rest
             \<and> \<not> list_ex is_SetItem rest"
    if "fits c (data c) w"
  proof -
    have f: "fits c (data c) (updateSyncStatus Syncing w)" using that by simp
    show ?thesis
      using handleSync_trace [OF assms, of fetch w] saveToLocal_fits_effects [OF f] by simp
  qed
  show ?thesis using s g t by blast
qed

theorem handleSync_local_first_witness:
  "truthy (data demoComponent) \<and> isAuthenticated demoComponent
   \<and> user demoComponent = Some demoUser
   \<and> fits demoComponent (data demoComponent) (demoWorld 1000)
   \<and> getItem ''checklist-u1-data''
       (handleSync demoComponent (\<lambda>r. Response 401 (Inr JNull)) (demoWorld 1000))
       = Some (JSON_stringify (JObj [(''a'', JBool True)]))"
proof -
  have d: "data demoComponent = JObj [(''a'', JBool True)]" by (simp add: demoComponent_def)
  from handleSync_local_first [OF demo_component(1-3), of "\<lambda>r. Response 401 (Inr JNull)" "demoWorld 1000"]
    demo_fits demo_component
  show ?thesis by (simp add: demo_keys d)
qed

section \<open>C2: debounce\<close>

text \<open>
  Claim C2 says that every burst of mutations inside the debounce window triggers
  exactly one sync. The effect starts a timer only for a snapshot with at least one
  key, and its cleanup clears the pending timer all the same: when the last mutation
  of the burst leaves the snapshot empty, with auto-sync on and the user
  authenticated, the burst triggers no sync at all.
\<close>

theorem emptied_snapshot_gets_no_sync:
  "autoSync (config demoComponent) \<and> isAuthenticated demoComponent
   \<and> fired (run idleTimers
        (burst [(demoComponent, 500), (demoComponent\<lparr>data := JObj []\<rparr>, 2000)])) = []"
  by (simp add: step_simps demoComponent_def idleTimers_def)

text \<open>
  Claim C2 as amended: with auto-sync on and the user authenticated, for every burst
  of one or more renders with a changed snapshot in which each next one comes less
  than 2000 ms after the one before, followed by 2000 ms or more without a change:
  when the last snapshot is truthy and has a key, exactly one sync is triggered, by
  the timer of the last render, whose \<open>handleSync\<close> sees the last snapshot; when the
  last snapshot is empty, none is. No timer is left pending, and after every render the
  only timer that can be pending is the one that render started.
\<close>

theorem debounce_collapses:
  assumes "\<forall>m \<in> set ms. snd m < 2000" and "2000 \<le> n"
    and "autoSync (config c)" and "isAuthenticated c"
  shows "fired (run s (burst (ms @ [(c, n)])))
           = fired s @ (if truthy (data c) \<and> Object_keys (data c) \<noteq> [] then [c] else [])
    \<and> pending (run s (burst (ms @ [(c, n)]))) = None
    \<and> (\<forall>s' c'. pending (step s' (Render c')) = None
                 \<or> pending (step s' (Render c')) = Some (2000, c'))"
proof -
  let ?s1 = "run s (burst ms)"
  have r: "run s (burst (ms @ [(c, n)])) = step (step ?s1 (Render c)) (Elapse n)"
    by (simp add: burst_append run_append)
  have q: "fired ?s1 = fired s" by (rule quiet_burst [OF assms(1)])
  have c: "pending (step s' (Render c')) = None \<or> pending (step s' (Render c')) = Some (2000, c')"
    for s' c'
    by (simp add: render_pending)
  show ?thesis
    using render_then_long_gap [OF assms(2), of ?s1 c] assms(3,4) q c by (simp add: r)
qed

theorem debounce_collapses_witness:
  "500 < (2000::nat) \<and> autoSync (config demoComponent) \<and> isAuthenticated demoComponent
   \<and> fired (run idleTimers
        (burst [(demoComponent\<lparr>data := JObj [(''b'', JBool True)]\<rparr>, 500), (demoComponent, 2000)]))
       = [demoComponent]"
proof -
  have k: "Object_keys (data demoComponent) \<noteq> []" by (simp add: demoComponent_def)
  from debounce_collapses [of "[(demoComponent\<lparr>data := JObj [(''b'', JBool True)]\<rparr>, 500)]" 2000
         demoComponent idleTimers]
       demo_component k
  show ?thesis by (simp add: idleTimers_def)
qed

section \<open>C3: the remote snapshot wins on a cloud load\<close>

text \<open>
  Claim C3. Whatever snapshot the component holds and whatever the Local Store holds
  for the user, when \<open>handleCloudLoad\<close> runs for an authenticated user with an
  endpoint and a token, the server answers with a 2xx status and a body whose
  \<^verbatim>\<open>data\<close> is a truthy value \<open>B\<close> (every object is), and the storage has room: the
  parent is handed exactly \<open>B\<close>, once; the data entry of the Local Store is the
  serialization of \<open>B\<close> alone; the last-modified entry is the current time; the status
  ends at \<^verbatim>\<open>synced\<close>. Nothing of the previous local snapshot enters the result.
\<close>

theorem handleCloudLoad_remote_wins:
  assumes "isAuthenticated c" and "user c = Some u" and "endpoint (config c) \<noteq> []"
    and "getItem ''google-access-token'' w = Some tok" and "tok \<noteq> []"
    and "fetch (loadRequest c u tok) = Response st (Inr result)" and "ok st"
    and "js_get result ''data'' = Inr (Some B)" and "truthy B" and "fits c B w"
  shows "loaded (effects (handleCloudLoad c fetch w)) = loaded (effects w) @ [B]
    \<and> getItem (getStorageKey c ''data'') (handleCloudLoad c fetch w) = Some (JSON_stringify B)
    \<and> getItem (getStorageKey c ''last-modified'') (handleCloudLoad c fetch w) = Some (now w)
    \<and> syncStatus (handleCloudLoad c fetch w) = Synced"
proof -
  let ?w2 = "emit (Fetch (loadRequest c u tok)) (updateSyncStatus Syncing (updateSyncStatus Syncing w))"
  have l: "loadFromCloud c fetch (updateSyncStatus Syncing w) = (Inr (Some B), ?w2)"
    using assms by (intro loadFromCloud_success) simp_all
  have h: "handleCloudLoad c fetch w = updateSyncStatus Synced (saveToLocal c B (onDataLoad B ?w2))"
    using assms l by (simp add: handleCloudLoad_unfold finishLoad_truthy)
  have f: "fits c B (onDataLoad B ?w2)" using assms by simp
  show ?thesis
    using saveToLocal_fits_getItem [OF f] by (simp add: h)
qed

theorem handleCloudLoad_remote_wins_witness:
  "isAuthenticated demoComponent \<and> user demoComponent = Some demoUser
   \<and> fits demoComponent (JObj [(''b'', JBool False)]) (demoWorld 1000)
   \<and> ok 200
   \<and> loaded (effects (handleCloudLoad demoComponent
         (\<lambda>r. Response 200 (Inr (JObj [(''data'', JObj [(''b'', JBool False)])]))) (demoWorld 1000)))
       = [JObj [(''b'', JBool False)]]
   \<and> getItem ''checklist-u1-data'' (handleCloudLoad demoComponent
         (\<lambda>r. Response 200 (Inr (JObj [(''data'', JObj [(''b'', JBool False)])]))) (demoWorld 1000))
       = Some (JSON_stringify (JObj [(''b'', JBool False)]))"
proof -
  have f: "fits demoComponent (JObj [(''b'', JBool False)]) (demoWorld 1000)"
    by (simp add: fits_def dataFits_def demo_keys demoWorld_def storage_used_def quote_def escape_char_def)
  have t: "getItem ''google-access-token'' (demoWorld 1000) = Some ''tok''"
    by (simp add: getItem_def demoWorld_def)
  have o: "ok 200" by (simp add: ok_def)
  have e: "effects (demoWorld 1000) = []" by (simp add: demoWorld_def)
  from handleCloudLoad_remote_wins [OF demo_component(2,3,4) t _ _ o _ _ f,
      of "\<lambda>r. Response 200 (Inr (JObj [(''data'', JObj [(''b'', JBool False)])]))"
         "JObj [(''data'', JObj [(''b'', JBool False)])]"]
    f o demo_component
  show ?thesis by (simp add: demo_keys e)
qed

section \<open>C4: which responses count as expired authentication\<close>

text \<open>
  Claim C4 says that a 401 and a 403 are both surfaced as the expired-authentication
  condition. Both calls test \<^verbatim>\<open>response.status === 401\<close> only: a 403 is thrown as the
  generic \<^verbatim>\<open>HTTP error! status: 403\<close>, in \<open>saveToCloud\<close> and in \<open>loadFromCloud\<close>.
\<close>

theorem forbidden_is_generic_error:
  "fst (saveToCloud demoComponent (\<lambda>r. Response 403 (Inr JNull)) (data demoComponent) (demoWorld 1000))
     = Inl (Error ''HTTP error! status: 403'')
   \<and> fst (loadFromCloud demoComponent (\<lambda>r. Response 403 (Inr JNull)) (demoWorld 1000))
     = Inl (Error ''HTTP error! status: 403'')
   \<and> ''HTTP error! status: 403'' \<noteq> authExpired"
proof -
  have t: "getItem ''google-access-token'' (demoWorld 1000) = Some ''tok''"
    by (simp add: getItem_def demoWorld_def)
  have n: "\<not> ok 403" by (simp add: ok_def)
  have "fst (saveToCloud demoComponent (\<lambda>r. Response 403 (Inr JNull)) (data demoComponent) (demoWorld 1000))
     = Inl (statusError 403)"
    by (rule saveToCloud_status [OF demo_component(3,4) t _ _ n]) simp_all
  moreover have "fst (loadFromCloud demoComponent (\<lambda>r. Response 403 (Inr JNull)) (demoWorld 1000))
     = Inl (statusError 403)"
    by (rule loadFromCloud_causes(3) [OF demo_component(3,4) t _ _ n]) simp_all
  moreover have "statusError 403 = Error ''HTTP error! status: 403''"
    by (simp add: statusError_def httpError_def show_nat_403)
  ultimately show ?thesis by (simp add: authExpired_def)
qed

text \<open>
  Claim C4 as amended: for every save or load call that reaches the server and gets a
  response that is not 2xx, a 401 is surfaced as the expired-authentication message,
  which asks the user to sign out and in again, and every other status, 403 included,
  as the generic HTTP error message with the status; the two messages are never equal.
\<close>

theorem authExpired_only_on_401:
  assumes "user c = Some u" and "endpoint (config c) \<noteq> []"
    and "getItem ''google-access-token'' w = Some tok" and "tok \<noteq> []"
    and "fetch (saveRequest c u tok d w) = Response st b"
    and "fetch (loadRequest c u tok) = Response st b'"
    and "\<not> ok st"
  shows "(st = 401 \<longrightarrow>
            fst (saveToCloud c fetch d w) = Inl (Error authExpired)
            \<and> fst (loadFromCloud c fetch w) = Inl (Error authExpired))
    \<and> (st \<noteq> 401 \<longrightarrow>
            fst (saveToCloud c fetch d w) = Inl (Error (httpError st))
            \<and> fst (loadFromCloud c fetch w) = Inl (Error (httpError st)))
    \<and> authExpired \<noteq> httpError st"
  using assms authExpired_is_not_httpError [of st]
  by (auto simp add: saveToCloud_def loadFromCloud_def Let_def statusError_def ok_def)

theorem authExpired_only_on_401_witness:
  "user demoComponent = Some demoUser \<and> \<not> ok 401
   \<and> getItem ''google-access-token'' (demoWorld 1000) = Some ''tok''
   \<and> fst (saveToCloud demoComponent (\<lambda>r. Response 401 (Inr JNull)) (data demoComponent) (demoWorld 1000))
       = Inl (Error authExpired)
   \<and> fst (loadFromCloud demoComponent (\<lambda>r. Response 401 (Inr JNull)) (demoWorld 1000))
       = Inl (Error authExpired)
   \<and> \<not> ok 500
   \<and> fst (saveToCloud demoComponent (\<lambda>r. Response 500 (Inr JNull)) (data demoComponent) (demoWorld 1000))
       = Inl (Error (httpError 500))"
proof -
  have t: "getItem ''google-access-token'' (demoWorld 1000) = Some ''tok''"
    by (simp add: getItem_def demoWorld_def)
  have n: "\<not> ok 401" "\<not> ok 500" by (simp_all add: ok_def)
  from authExpired_only_on_401 [of demoComponent demoUser "demoWorld 1000" "''tok''"
         "\<lambda>r. Response 401 (Inr JNull)" "data demoComponent" 401 "Inr JNull" "Inr JNull"]
       authExpired_only_on_401 [of demoComponent demoUser "demoWorld 1000" "''tok''"
         "\<lambda>r. Response 500 (Inr JNull)" "data demoComponent" 500 "Inr JNull" "Inr JNull"]
       t n demo_component
  show ?thesis by simp
qed

section \<open>C5: a cloud load that fails\<close>

text \<open>
  Claim C5 says that a failed cloud load ends at status \<^verbatim>\<open>offline\<close>. In
  \<open>handleCloudLoad\<close> the \<^verbatim>\<open>catch\<close> of \<open>loadFromCloud\<close> sets \<^verbatim>\<open>offline\<close> and throws again,
  and the \<^verbatim>\<open>catch\<close> of \<open>handleCloudLoad\<close> then sets \<^verbatim>\<open>error\<close>: with an unreachable
  endpoint the status ends at \<^verbatim>\<open>error\<close>.
\<close>

theorem handleCloudLoad_unreachable_ends_in_error:
  "syncStatus (handleCloudLoad demoComponent (\<lambda>r. Rejected ''Failed to fetch'') (demoWorld 1000)) = ErrorStatus
   \<and> syncStatus (handleCloudLoad demoComponent (\<lambda>r. Rejected ''Failed to fetch'') (demoWorld 1000)) \<noteq> Offline"
proof -
  have "syncStatus (handleCloudLoad demoComponent (\<lambda>r. Rejected ''Failed to fetch'') (demoWorld 1000)) = ErrorStatus"
    using demo_component
    by (simp add: handleCloudLoad_def Let_def loadFromCloud_def getItem_def demoWorld_def
          split: prod.splits sum.splits option.splits)
  then show ?thesis by simp
qed

text \<open>
  Claim C5 as amended: when \<open>loadFromCloud\<close> fails inside \<open>handleCloudLoad\<close> (for an
  authenticated user), the status ends at \<^verbatim>\<open>error\<close>, the message of the failure is
  kept in \<^verbatim>\<open>error\<close>, the Local Store is left as it was and the parent is handed
  nothing. \<open>loadFromCloud\<close> by itself, with an endpoint configured, leaves the status at
  \<^verbatim>\<open>offline\<close> and does not record the message.
\<close>

theorem handleCloudLoad_failure:
  assumes "isAuthenticated c" and "user c = Some u"
    and "fst (loadFromCloud c fetch (updateSyncStatus Syncing w)) = Inl err"
  shows "syncStatus (handleCloudLoad c fetch w) = ErrorStatus
    \<and> error (handleCloudLoad c fetch w) = Some (message err)
    \<and> localStorage (handleCloudLoad c fetch w) = localStorage w
    \<and> loaded (effects (handleCloudLoad c fetch w)) = loaded (effects w)
    \<and> (endpoint (config c) \<noteq> [] \<longrightarrow>
          syncStatus (snd (loadFromCloud c fetch (updateSyncStatus Syncing w))) = Offline
          \<and> error (snd (loadFromCloud c fetch (updateSyncStatus Syncing w))) = error w)"
proof -
  let ?p = "loadFromCloud c fetch (updateSyncStatus Syncing w)"
  have p: "?p = (Inl err, snd ?p)" using assms(3) by (cases ?p) simp
  have h: "handleCloudLoad c fetch w =
      updateSyncStatus ErrorStatus (setError (message err) (console_error ''Cloud load failed:'' (snd ?p)))"
    using assms(1,2) by (subst handleCloudLoad_unfold, subst p) (simp add: finishLoad_Inl)
  have off: "endpoint (config c) \<noteq> [] \<longrightarrow> syncStatus (snd ?p) = Offline"
    using loadFromCloud_failure_offline [OF assms(3)] assms(2) by simp
  have err: "error (snd ?p) = error w" by (simp add: updateSyncStatus_error)
  show ?thesis
    using off err by (simp add: h updateSyncStatus_error)
qed

theorem handleCloudLoad_failure_witness:
  "isAuthenticated demoComponent \<and> user demoComponent = Some demoUser
   \<and> fst (loadFromCloud demoComponent (\<lambda>r. Rejected ''Failed to fetch'')
            (updateSyncStatus Syncing (demoWorld 1000))) = Inl (Error ''Failed to fetch'')
   \<and> error (handleCloudLoad demoComponent (\<lambda>r. Rejected ''Failed to fetch'') (demoWorld 1000))
       = Some ''Failed to fetch''
   \<and> localStorage (handleCloudLoad demoComponent (\<lambda>r. Rejected ''Failed to fetch'') (demoWorld 1000))
       = [(''google-access-token'', ''tok'')]"
proof -
  have t: "getItem ''google-access-token'' (updateSyncStatus Syncing (demoWorld 1000)) = Some ''tok''"
    by (simp add: getItem_def demoWorld_def)
  have l: "fst (loadFromCloud demoComponent (\<lambda>r. Rejected ''Failed to fetch'')
            (updateSyncStatus Syncing (demoWorld 1000))) = Inl (Error ''Failed to fetch'')"
    by (rule loadFromCloud_causes(2) [OF demo_component(3,4) t]) simp_all
  have s: "localStorage (demoWorld 1000) = [(''google-access-token'', ''tok'')]"
    by (simp add: demoWorld_def)
  from handleCloudLoad_failure [OF demo_component(2,3) l] l demo_component s
  show ?thesis by simp
qed

section \<open>C6: the two writes of \<open>saveToLocal\<close>\<close>

text \<open>
  Claim C6 says that a put either writes both the data entry and the last-modified
  entry or, when it fails, leaves the store as it was. \<open>saveToLocal\<close> makes two
  \<^verbatim>\<open>setItem\<close> calls in one \<^verbatim>\<open>try\<close>, and nothing undoes the first when the second throws.
  With a user \<^verbatim>\<open>u1\<close>, the snapshot \<^verbatim>\<open>{"a":true}\<close> and room for 60 characters, of which
  22 are taken, the data entry is written and the last-modified entry is not: the
  put failed and the store is not as it was.
\<close>

theorem saveToLocal_partial_write:
  "getItem ''checklist-u1-last-modified''
     (saveToLocal demoComponent (data demoComponent) (demoWorld 60)) = None
   \<and> localStorage (saveToLocal demoComponent (data demoComponent) (demoWorld 60))
       \<noteq> localStorage (demoWorld 60)"
  using demo_tight
  by (simp add: saveToLocal_storage demo_keys demo_text getItem_def)
     (simp add: demoWorld_def)

text \<open>
  Claim C6 as amended: \<open>saveToLocal\<close> writes the data entry, then the last-modified
  entry. When both fit, both are written. When the data entry does not fit, the store
  is left as it was. When only the last-modified entry does not fit, the data entry
  stays written and the last-modified entry keeps its old value. In every case the
  failure is swallowed: the error message and the sync status of the component are
  as before.
\<close>

theorem saveToLocal_two_writes:
  "(fits c d w \<longrightarrow>
      getItem (getStorageKey c ''data'') (saveToLocal c d w) = Some (JSON_stringify d)
      \<and> getItem (getStorageKey c ''last-modified'') (saveToLocal c d w) = Some (now w))
   \<and> (\<not> dataFits c d w \<longrightarrow> localStorage (saveToLocal c d w) = localStorage w)
   \<and> (dataFits c d w \<and> \<not> fits c d w \<longrightarrow>
        getItem (getStorageKey c ''data'') (saveToLocal c d w) = Some (JSON_stringify d)
        \<and> getItem (getStorageKey c ''last-modified'') (saveToLocal c d w)
            = getItem (getStorageKey c ''last-modified'') w)
   \<and> error (saveToLocal c d w) = error w
   \<and> syncStatus (saveToLocal c d w) = syncStatus w"
proof -
  have both: "fits c d w \<longrightarrow>
      getItem (getStorageKey c ''data'') (saveToLocal c d w) = Some (JSON_stringify d)
      \<and> getItem (getStorageKey c ''last-modified'') (saveToLocal c d w) = Some (now w)"
    using saveToLocal_fits_getItem by blast
  have none: "\<not> dataFits c d w \<longrightarrow> localStorage (saveToLocal c d w) = localStorage w"
    by (simp add: saveToLocal_storage)
  have half: "dataFits c d w \<and> \<not> fits c d w \<longrightarrow>
        getItem (getStorageKey c ''data'') (saveToLocal c d w) = Some (JSON_stringify d)
        \<and> getItem (getStorageKey c ''last-modified'') (saveToLocal c d w)
            = getItem (getStorageKey c ''last-modified'') w"
    using storage_keys_differ [of c]
    by (auto simp add: saveToLocal_storage getItem_def update_conv')
  show ?thesis using both none half by simp
qed

theorem saveToLocal_two_writes_witness:
  "fits demoComponent (data demoComponent) (demoWorld 1000)
   \<and> getItem ''checklist-u1-last-modified''
       (saveToLocal demoComponent (data demoComponent) (demoWorld 1000))
       = Some ''2024-01-02T03:04:05.000Z''
   \<and> \<not> dataFits demoComponent (data demoComponent) (demoWorld 10)
   \<and> localStorage (saveToLocal demoComponent (data demoComponent) (demoWorld 10))
       = localStorage (demoWorld 10)
   \<and> dataFits demoComponent (data demoComponent) (demoWorld 60)
   \<and> \<not> fits demoComponent (data demoComponent) (demoWorld 60)
   \<and> getItem ''checklist-u1-last-modified''
       (saveToLocal demoComponent (data demoComponent) (demoWorld 60)) = None"
  using saveToLocal_two_writes [of demoComponent "data demoComponent" "demoWorld 1000"]
        saveToLocal_two_writes [of demoComponent "data demoComponent" "demoWorld 10"]
        saveToLocal_two_writes [of demoComponent "data demoComponent" "demoWorld 60"]
        demo_fits demo_tight
  by (simp add: demo_keys) (simp add: demoWorld_def getItem_def)

section \<open>C7: an import file without data\<close>

text \<open>
  Claim C7 says that an artifact that parses as JSON but has no \<^verbatim>\<open>data\<close> field makes
  the import report a format error. In \<open>handleImport\<close> the \<^verbatim>\<open>if (importData.data)\<close> has
  no \<^verbatim>\<open>else\<close>; the message \<^verbatim>\<open>Invalid backup file format\<close> is set only in the
  \<^verbatim>\<open>catch\<close>. For the artifact \<^verbatim>\<open>{"version": "1.0"}\<close> the import returns the world it
  was given: nothing is loaded or stored, and no error is reported either.
\<close>

theorem handleImport_missing_data_is_silent:
  "handleImport c fetch (Some (Inr (JObj [(''version'', JStr ''1.0'')]))) w = w
   \<and> error (handleImport c fetch (Some (Inr (JObj [(''version'', JStr ''1.0'')]))) w) = error w"
  by (simp add: handleImport_def)

text \<open>The sync that an import triggers is the one of the render that started the import.\<close>

lemma handleImport_sync_is_stale:
  "getItem ''checklist-u1-data''
     (handleImport demoComponent (\<lambda>r. Response 200 (Inr JNull))
        (Some (Inr (JObj [(''data'', JObj [(''b'', JBool False)])]))) (demoWorld 1000))
   = Some (JSON_stringify (JObj [(''a'', JBool True)]))"
proof -
  let ?d = "JObj [(''b'', JBool False)]"
  let ?w1 = "saveToLocal demoComponent ?d (onDataLoad ?d (demoWorld 1000))"
  have i: "handleImport demoComponent (\<lambda>r. Response 200 (Inr JNull))
        (Some (Inr (JObj [(''data'', ?d)]))) (demoWorld 1000)
        = handleSync demoComponent (\<lambda>r. Response 200 (Inr JNull)) ?w1"
    using demo_component by (subst handleImport_truthy [of _ ?d]) simp_all
  have f: "fits demoComponent (data demoComponent) ?w1"
    by (simp add: fits_def dataFits_def saveToLocal_storage demo_keys demo_text)
       (simp add: demoWorld_def storage_used_def quote_def escape_char_def)
  have d: "data demoComponent = JObj [(''a'', JBool True)]" by (simp add: demoComponent_def)
  show ?thesis
    using saveToLocal_fits_getItem(1) [OF f] demo_component
    by (simp add: i getItem_def handleSync_storage demo_keys d)
qed

section \<open>C8: a user that does not match the token\<close>

text \<open>
  Claim C8 says that both endpoints answer 403 when the asserted user is not the one
  of the token. The load function tests the token and the user in one condition and
  answers 401 for both: a GET for user \<^verbatim>\<open>u2\<close> with the valid token of \<^verbatim>\<open>u1\<close>
  gets 401.
\<close>

theorem load_mismatch_is_401:
  "statusCode (fst (load_handler googleKnows loadEvent)) = 401
   \<and> statusCode (fst (load_handler googleKnows loadEvent)) \<noteq> 403"
  by (simp add: load_handler_def loadEvent_def googleKnows_tok userInfo_id_def)

text \<open>
  Claim C8 as amended: for every request with a bearer token that the identity
  provider accepts, a save whose body asserts another \<^verbatim>\<open>userId\<close> than the token's is
  answered 403, and a load whose \<^verbatim>\<open>userId\<close> parameter is another than the token's is
  answered 401, the status of an invalid token. Neither function keeps state; on
  these paths they write nothing, not even to the console.
\<close>

theorem mismatch_rejected:
  assumes "take 7 h = ''Bearer ''" and "verifyGoogleToken google (drop 7 h) = (Some userInfo, out)"
  shows "(httpMethod ev = ''POST'' \<and> authorization ev = Some h \<and> body ev = Some (Inr requestBody)
          \<and> js_get requestBody ''userId'' = Inr userId
          \<and> \<not> strict_eq userId (userInfo_id userInfo)
          \<longrightarrow> statusCode (fst (save_handler google clock ev)) = 403
              \<and> snd (save_handler google clock ev) = [])
    \<and> (httpMethod ev = ''GET'' \<and> authorization ev = Some h \<and> queryUserId ev = Some q \<and> q \<noteq> []
          \<and> \<not> strict_eq (userInfo_id userInfo) (Some (JStr q))
          \<longrightarrow> statusCode (fst (load_handler google ev)) = 401
              \<and> snd (load_handler google ev) = [])"
  using assms verifyGoogleToken_Some [OF assms(2)]
  by (simp add: save_handler_def load_handler_def)

theorem mismatch_rejected_witness:
  "take 7 ''Bearer tok'' = ''Bearer ''
   \<and> statusCode (fst (save_handler googleKnows ''2024-01-02T03:04:05.000Z'' saveEvent)) = 403
   \<and> snd (save_handler googleKnows ''2024-01-02T03:04:05.000Z'' saveEvent) = []
   \<and> statusCode (fst (load_handler googleKnows loadEvent)) = 401
   \<and> snd (load_handler googleKnows loadEvent) = []"
proof -
  have b: "take 7 ''Bearer tok'' = ''Bearer ''" by simp
  have v: "verifyGoogleToken googleKnows (drop 7 ''Bearer tok'')
     = (Some (JObj [(''id'', JStr ''u1''), (''email'', JStr ''u1@example.org'')]), [])"
    using googleKnows_tok by simp
  from mismatch_rejected [OF b v, of saveEvent
         "JObj [(''userId'', JStr ''u2''), (''userEmail'', JStr ''u2@example.org''),
                (''data'', JObj [(''a'', JBool True)]),
                (''timestamp'', JStr ''2024-01-02T03:04:05.000Z'')]"
         "Some (JStr ''u2'')" "''2024-01-02T03:04:05.000Z''"]
       mismatch_rejected [OF b v, of loadEvent _ _ _ "''u2''"]
  show ?thesis
    by (simp add: saveEvent_def loadEvent_def userInfo_id_def)
qed

section \<open>C9: export, then import\<close>

text \<open>
  Claim C9. The artifact that \<open>handleExport\<close> downloads for a truthy snapshot (every
  object is truthy, and the export button is disabled for a falsy or empty one) is
  \<open>exportData\<close>; importing what \<^verbatim>\<open>JSON.parse\<close> makes of it, in any component and world,
  hands the parent exactly that snapshot, once, whatever the time of the export, the
  exporting user and the version tag; where the storage has room, the import then
  writes the serialization of exactly that snapshot to the Local Store.
\<close>

theorem export_import_roundtrip:
  assumes "truthy (data c)"
  shows "effects (handleExport c w) = effects w @ [Download (exportName c w) (exportData c w)]
    \<and> loaded (effects (handleImport c' fetch (Some (Inr (exportData c w))) w'))
        = loaded (effects w') @ [data c]
    \<and> (fits c' (data c) w' \<longrightarrow>
         (\<exists>rest. effects (handleImport c' fetch (Some (Inr (exportData c w))) w')
            = effects w' @ [OnDataLoad (data c),
                            SetItem (getStorageKey c' ''data'') (JSON_stringify (data c)),
                            SetItem (getStorageKey c' ''last-modified'') (now w')] @ rest))"
proof -
  let ?w1 = "saveToLocal c' (data c) (onDataLoad (data c) w')"
  have i: "handleImport c' fetch (Some (Inr (exportData c w))) w' =
           (if autoSync (config c') \<and> isAuthenticated c' then handleSync c' fetch ?w1 else ?w1)"
    by (rule handleImport_truthy [OF exportData_data assms])
  have a: "effects (handleExport c w) = effects w @ [Download (exportName c w) (exportData c w)]"
    by (simp add: handleExport_def)
  have b: "loaded (effects (handleImport c' fetch (Some (Inr (exportData c w))) w'))
        = loaded (effects w') @ [data c]"
    by (simp add: i)
  have c: "\<exists>rest. effects (handleImport c' fetch (Some (Inr (exportData c w))) w')
            = effects w' @ [OnDataLoad (data c),
                            SetItem (getStorageKey c' ''data'') (JSON_stringify (data c)),
                            SetItem (getStorageKey c' ''last-modified'') (now w')] @ rest"
    if f: "fits c' (data c) w'"
  proof -
    have f': "fits c' (data c) (onDataLoad (data c) w')" using f by simp
    have e1: "effects ?w1 = effects w' @ [OnDataLoad (data c),
                            SetItem (getStorageKey c' ''data'') (JSON_stringify (data c)),
                            SetItem (getStorageKey c' ''last-modified'') (now w')]"
      using saveToLocal_fits_effects [OF f'] by simp
    obtain r where "effects (handleSync c' fetch ?w1) = effects ?w1 @ r"
      using handleSync_effects_prefix by blast
    then show ?thesis using e1 by (auto simp add: i)
  qed
  show ?thesis using a b c by blast
qed

theorem export_import_roundtrip_witness:
  "truthy (data demoComponent)
   \<and> loaded (effects (handleImport (demoComponent\<lparr>data := JObj []\<rparr>) (\<lambda>r. Rejected ''offline'')
        (Some (Inr (exportData demoComponent (demoWorld 1000)))) (demoWorld 500)))
       = [JObj [(''a'', JBool True)]]"
proof -
  have e: "effects (demoWorld 500) = []" by (simp add: demoWorld_def)
  have d: "data demoComponent = JObj [(''a'', JBool True)]" by (simp add: demoComponent_def)
  from export_import_roundtrip [OF demo_component(1), of "demoWorld 1000"
         "demoComponent\<lparr>data := JObj []\<rparr>" "\<lambda>r. Rejected ''offline''" "demoWorld 500"]
       demo_component(1)
  show ?thesis by (simp add: e d)
qed

section \<open>C10: an empty snapshot is not auto-synced\<close>

text \<open>
  Claim C10. For every render whose snapshot has no keys, whatever the configuration
  and the session: the effect starts no timer, the timer of the render before is
  cleared, the render itself calls no sync, and however much time passes afterwards
  no sync is called; so the emptied checklist is not persisted by auto-sync.
\<close>

theorem empty_snapshot_never_auto_synced:
  assumes "Object_keys (data c) = []"
  shows "pending (step s (Render c)) = None
    \<and> fired (step s (Render c)) = fired s
    \<and> fired (run (step s (Render c)) (map Elapse ns)) = fired s"
proof -
  have p: "pending (step s (Render c)) = None" using assms by (simp add: render_pending)
  show ?thesis using p idle_waits [OF p, of ns] by simp
qed

theorem empty_snapshot_never_auto_synced_witness:
  "Object_keys (data (demoComponent\<lparr>data := JObj []\<rparr>)) = []
   \<and> autoSync (config (demoComponent\<lparr>data := JObj []\<rparr>))
   \<and> isAuthenticated (demoComponent\<lparr>data := JObj []\<rparr>)
   \<and> fired (run (step (step idleTimers (Render demoComponent)) (Render (demoComponent\<lparr>data := JObj []\<rparr>)))
        (map Elapse [1000, 5000])) = []"
proof -
  have k: "Object_keys (data (demoComponent\<lparr>data := JObj []\<rparr>)) = []" by simp
  from empty_snapshot_never_auto_synced [OF k, of "step idleTimers (Render demoComponent)" "[1000, 5000]"]
    demo_component
  show ?thesis by (simp add: idleTimers_def)
qed

end
